theory Spec2Isabelle
  imports Complex_Main
begin

section \<open>Data model of finance\_tracker.py\<close>

text \<open>
  A transaction's \<open>date\<close> is a Python \<open>datetime\<close>. Only its calendar fields are read by
  the program (through \<open>strftime("%m-%Y")\<close>); \<open>datetime\<close> itself keeps
  \<open>1 \<le> month \<le> 12\<close> and \<open>1 \<le> year \<le> 9999\<close>.
\<close>

record date =
  year :: nat
  month :: nat
  day :: nat

text \<open>
  The class of a transaction object: the base class \<open>Transaction\<close> or one of its two
  subclasses. \<open>isinstance(tx, Income)\<close> is \<open>cls tx = Income\<close>, since neither subclass
  derives from the other.
\<close>

datatype tx_class = Transaction | Income | Expense

text \<open>
  \<open>amount\<close> is a Python \<open>float\<close>. The model computes with exact real numbers: the
  rounding of binary floating point, infinities and NaN are not represented. Every sum
  below is therefore an exact sum; on floats two sums of the same amounts taken in
  different orders can differ by a rounding error.
\<close>

record transaction =
  cls :: tx_class
  amount :: real
  category :: string
  date :: date
  description :: string

record account =
  balance :: real
  transactions :: "transaction list"

record report =
  total_income :: real
  total_expense :: real
  net :: real
  income_by_cat :: "string \<rightharpoonup> real"
  expense_by_cat :: "string \<rightharpoonup> real"

text \<open>The exceptions the program raises: \<open>ValueError(message)\<close> and \<open>NotImplementedError\<close>.\<close>

datatype error = ValueError string | NotImplementedError

text \<open>
  A method call on an account either returns a value or raises, and in both cases
  leaves the account object in some state: the outcome of a call is the pair of the two.
\<close>

type_synonym 'a outcome = "(error + 'a) \<times> account"

section \<open>Utility\<close>

definition digit_char :: "nat \<Rightarrow> char" where
  "digit_char n = ''0123456789'' ! (n mod 10)"

text \<open>
  \<open>date.strftime("%m-%Y")\<close>, after the documentation of the directives: \<open>%m\<close> is the
  month as two decimal digits, padded with a zero, and \<open>%Y\<close> the year with century as a
  decimal number, \<open>0001\<close> to \<open>9999\<close>. (For a year below 1000 some C libraries do not pad
  \<open>%Y\<close>; the definition follows the documented four digits.)
\<close>

definition month_year_key :: "date \<Rightarrow> string" where
  "month_year_key d =
     [digit_char (month d div 10), digit_char (month d)] @ ''-'' @
     [digit_char (year d div 1000), digit_char (year d div 100),
      digit_char (year d div 10), digit_char (year d)]"

section \<open>Transaction classes\<close>

text \<open>
  \<open>tx.apply(account)\<close>, dispatched on the class of \<open>tx\<close>: the base class raises,
  \<open>Income\<close> adds the amount to the balance, \<open>Expense\<close> subtracts it.
\<close>

definition apply_tx :: "transaction \<Rightarrow> account \<Rightarrow> unit outcome" where
  "apply_tx tx acc =
     (case cls tx of
        Transaction \<Rightarrow> (Inl NotImplementedError, acc)
      | Income \<Rightarrow> (Inr (), acc\<lparr>balance := balance acc + amount tx\<rparr>)
      | Expense \<Rightarrow> (Inr (), acc\<lparr>balance := balance acc - amount tx\<rparr>))"

section \<open>Account\<close>

text \<open>\<open>Account()\<close>: balance \<open>0.0\<close> and, after \<open>__post_init__\<close>, an empty list.\<close>

definition Account_init :: account where
  "Account_init = \<lparr>balance = 0, transactions = []\<rparr>"

definition add :: "account \<Rightarrow> transaction \<Rightarrow> unit outcome" where
  "add acc tx =
     (if amount tx \<le> 0 then (Inl (ValueError ''Amount must be positive.''), acc)
      else (case apply_tx tx acc of
              (Inl e, acc1) \<Rightarrow> (Inl e, acc1)
            | (Inr u, acc1) \<Rightarrow> (Inr (), acc1\<lparr>transactions := transactions acc1 @ [tx]\<rparr>)))"

definition by_month :: "account \<Rightarrow> string \<Rightarrow> transaction list outcome" where
  "by_month acc month_year =
     (Inr (filter (\<lambda>t. month_year_key (date t) = month_year) (transactions acc)), acc)"

section \<open>Report\<close>

text \<open>\<open>Report()\<close>: the three totals are \<open>0.0\<close> and \<open>__post_init__\<close> sets both dicts to \<open>{}\<close>.\<close>

definition Report_init :: report where
  "Report_init =
     \<lparr>total_income = 0, total_expense = 0, net = 0,
      income_by_cat = Map.empty, expense_by_cat = Map.empty\<rparr>"

text \<open>\<open>d.get(k, 0)\<close>\<close>

definition dict_get0 :: "(string \<rightharpoonup> real) \<Rightarrow> string \<Rightarrow> real" where
  "dict_get0 d k = (case d k of None \<Rightarrow> 0 | Some v \<Rightarrow> v)"

text \<open>One pass of the body of the \<open>for\<close> loop of \<open>monthly\<close>.\<close>

definition monthly_step :: "report \<Rightarrow> transaction \<Rightarrow> report" where
  "monthly_step r tx =
     (if cls tx = Income then
        r\<lparr>total_income := total_income r + amount tx,
          income_by_cat :=
            (income_by_cat r)(category tx \<mapsto> dict_get0 (income_by_cat r) (category tx) + amount tx)\<rparr>
      else if cls tx = Expense then
        r\<lparr>total_expense := total_expense r + amount tx,
          expense_by_cat :=
            (expense_by_cat r)(category tx \<mapsto> dict_get0 (expense_by_cat r) (category tx) + amount tx)\<rparr>
      else r)"

fun monthly_loop :: "report \<Rightarrow> transaction list \<Rightarrow> report" where
  "monthly_loop r [] = r"
| "monthly_loop r (tx # txs) = monthly_loop (monthly_step r tx) txs"

definition monthly :: "account \<Rightarrow> string \<Rightarrow> report outcome" where
  "monthly acc month_year =
     (case by_month acc month_year of
        (Inl e, acc1) \<Rightarrow> (Inl e, acc1)
      | (Inr txs, acc1) \<Rightarrow>
          (let r = monthly_loop Report_init txs
           in (Inr (r\<lparr>net := total_income r - total_expense r\<rparr>), acc1)))"

text \<open>Python's \<open>sum\<close>: a left fold of \<open>+\<close> that starts from \<open>0\<close>.\<close>

definition py_sum :: "real list \<Rightarrow> real" where
  "py_sum xs = foldl (+) 0 xs"

text \<open>
  \<open>print_all_time\<close> computes \<open>income\<close> and \<open>expense\<close> and prints them and
  \<open>income - expense\<close>; the result here is the three numbers it hands to the formatter.
\<close>

definition print_all_time :: "account \<Rightarrow> (real \<times> real \<times> real) outcome" where
  "print_all_time acc =
     (let income = py_sum (map amount (filter (\<lambda>t. cls t = Income) (transactions acc)));
          expense = py_sum (map amount (filter (\<lambda>t. cls t = Expense) (transactions acc)))
      in (Inr (income, expense, income - expense), acc))"

section \<open>Notions the properties are stated with\<close>

text \<open>
  The ledger after adding the transactions of a list one after another; \<open>None\<close> as soon
  as one \<open>add\<close> raises.
\<close>

fun add_seq :: "account \<Rightarrow> transaction list \<Rightarrow> account option" where
  "add_seq acc [] = Some acc"
| "add_seq acc (tx # txs) =
     (case add acc tx of
        (Inl e, acc1) \<Rightarrow> None
      | (Inr u, acc1) \<Rightarrow> add_seq acc1 txs)"

definition amounts_of :: "tx_class \<Rightarrow> transaction list \<Rightarrow> real" where
  "amounts_of c txs = sum_list (map amount (filter (\<lambda>t. cls t = c) txs))"



text \<open>
  The transactions of the worked scenario: \<open>Income(1000, "Salary", 01-03-2024)\<close>,
  \<open>Income(200, "Gift", 15-03-2024)\<close>, \<open>Expense(300, "Food", 20-03-2024)\<close>, and one of
  another month, \<open>Expense(500, "Rent", 05-04-2024)\<close>. The description has its default \<open>""\<close>.
\<close>

definition salary_tx :: transaction where
  "salary_tx = \<lparr>cls = Income, amount = 1000, category = ''Salary'',
                 date = \<lparr>year = 2024, month = 3, day = 1\<rparr>, description = ''''\<rparr>"

definition gift_tx :: transaction where
  "gift_tx = \<lparr>cls = Income, amount = 200, category = ''Gift'',
               date = \<lparr>year = 2024, month = 3, day = 15\<rparr>, description = ''''\<rparr>"

definition food_tx :: transaction where
  "food_tx = \<lparr>cls = Expense, amount = 300, category = ''Food'',
               date = \<lparr>year = 2024, month = 3, day = 20\<rparr>, description = ''''\<rparr>"

definition rent_tx :: transaction where
  "rent_tx = \<lparr>cls = Expense, amount = 500, category = ''Rent'',
               date = \<lparr>year = 2024, month = 4, day = 5\<rparr>, description = ''''\<rparr>"

section \<open>The month-year key\<close>







text \<open>The key always has the shape of two characters, a dash and four characters.\<close>

lemma month_year_key_shape: "length (month_year_key d) = 7 \<and> month_year_key d ! 2 = CHR ''-''"
  by (simp add: month_year_key_def)

section \<open>The scenario's transactions\<close>

lemma scenario_keys:
  "month_year_key (date salary_tx) = ''03-2024''"
  "month_year_key (date gift_tx) = ''03-2024''"
  "month_year_key (date food_tx) = ''03-2024''"
  "month_year_key (date rent_tx) = ''04-2024''"
  by (simp_all add: month_year_key_def digit_char_def salary_tx_def gift_tx_def food_tx_def
      rent_tx_def)

lemma scenario_fields:
  "cls salary_tx = Income" "amount salary_tx = 1000" "category salary_tx = ''Salary''"
  "cls gift_tx = Income" "amount gift_tx = 200" "category gift_tx = ''Gift''"
  "cls food_tx = Expense" "amount food_tx = 300" "category food_tx = ''Food''"
  "cls rent_tx = Expense" "amount rent_tx = 500" "category rent_tx = ''Rent''"
  by (simp_all add: salary_tx_def gift_tx_def food_tx_def rent_tx_def)


lemma scenario_adds:
  "add_seq Account_init [salary_tx, gift_tx, food_tx] =
     Some \<lparr>balance = 900, transactions = [salary_tx, gift_tx, food_tx]\<rparr>"
  by (simp add: add_def apply_tx_def Account_init_def scenario_fields)

lemma scenario_maps:
  "[''Salary'' \<mapsto> 1000, ''Gift'' \<mapsto> 200] = [''Gift'' \<mapsto> 200, ''Salary'' \<mapsto> (1000::real)]"
  by (rule fun_upd_twist) simp

section \<open>Properties of add\<close>


text \<open>
  C2. For every ledger and every transaction whose amount is at most \<open>0\<close>, \<open>add\<close> raises
  the \<open>ValueError\<close> "Amount must be positive." (the specification's \<open>InvalidAmount\<close>) and
  the ledger after the call is the ledger before it: same balance, same transactions.
\<close>

theorem add_invalid_amount:
  "amount tx \<le> 0 \<Longrightarrow>
     add acc tx = (Inl (ValueError ''Amount must be positive.''), acc) \<and>
     balance (snd (add acc tx)) = balance acc \<and>
     transactions (snd (add acc tx)) = transactions acc"
  by (simp add: add_def)

theorem add_invalid_amount_witness:
  "amount \<lparr>cls = Expense, amount = -50, category = ''Food'',
           date = \<lparr>year = 2024, month = 3, day = 20\<rparr>, description = ''''\<rparr> \<le> 0 \<and>
   add \<lparr>balance = 10, transactions = []\<rparr>
       \<lparr>cls = Expense, amount = -50, category = ''Food'',
        date = \<lparr>year = 2024, month = 3, day = 20\<rparr>, description = ''''\<rparr>
     = (Inl (ValueError ''Amount must be positive.''), \<lparr>balance = 10, transactions = []\<rparr>)"
  using add_invalid_amount
    [of "\<lparr>cls = Expense, amount = -50, category = ''Food'',
          date = \<lparr>year = 2024, month = 3, day = 20\<rparr>, description = ''''\<rparr>"
        "\<lparr>balance = 10, transactions = []\<rparr>"]
  by simp



text \<open>
  C10. For every ledger and every transaction of the base class \<open>Transaction\<close> with a
  positive amount, \<open>add\<close> raises the \<open>NotImplementedError\<close> of \<open>apply\<close>, and the ledger
  after the call is the ledger before it: the balance is the same and the transaction
  has not been appended.
\<close>

theorem add_base_transaction:
  "cls tx = Transaction \<Longrightarrow> 0 < amount tx \<Longrightarrow>
     add acc tx = (Inl NotImplementedError, acc) \<and>
     balance (snd (add acc tx)) = balance acc \<and>
     transactions (snd (add acc tx)) = transactions acc"
  by (simp add: add_def apply_tx_def)

theorem add_base_transaction_witness:
  "cls (salary_tx\<lparr>cls := Transaction\<rparr>) = Transaction \<and>
   0 < amount (salary_tx\<lparr>cls := Transaction\<rparr>) \<and>
   add \<lparr>balance = 10, transactions = [food_tx]\<rparr> (salary_tx\<lparr>cls := Transaction\<rparr>) =
     (Inl NotImplementedError, \<lparr>balance = 10, transactions = [food_tx]\<rparr>)"
  using add_base_transaction
    [of "salary_tx\<lparr>cls := Transaction\<rparr>" "\<lparr>balance = 10, transactions = [food_tx]\<rparr>"]
  by (simp add: scenario_fields)

subsection \<open>Sequences of adds\<close>





section \<open>Properties of by\_month\<close>



section \<open>Properties of the reports\<close>

lemma foldl_add_sum_list: "foldl (+) a xs = a + sum_list (xs :: real list)"
  by (induction xs arbitrary: a) auto

lemma py_sum_sum_list: "py_sum xs = sum_list xs"
  by (simp add: py_sum_def foldl_add_sum_list)


lemma monthly_eq:
  "monthly acc k =
     (Inr (let r = monthly_loop Report_init
                     (filter (\<lambda>t. month_year_key (date t) = k) (transactions acc))
           in r\<lparr>net := total_income r - total_expense r\<rparr>), acc)"
  by (simp add: monthly_def by_month_def Let_def)

lemma print_all_time_eq:
  "print_all_time acc =
     (Inr (amounts_of Income (transactions acc), amounts_of Expense (transactions acc),
           amounts_of Income (transactions acc) - amounts_of Expense (transactions acc)), acc)"
  by (simp add: print_all_time_def py_sum_sum_list amounts_of_def Let_def)


text \<open>
  C7. For every ledger and every key that the key of no stored transaction equals,
  \<open>monthly\<close> returns normally the report with the three totals \<open>0\<close> and both category
  mappings empty.
\<close>

theorem monthly_no_match:
  assumes "\<forall>t\<in>set (transactions acc). month_year_key (date t) \<noteq> k"
  shows "monthly acc k =
     (Inr \<lparr>total_income = 0, total_expense = 0, net = 0,
           income_by_cat = Map.empty, expense_by_cat = Map.empty\<rparr>, acc)"
proof -
  from assms have "filter (\<lambda>t. month_year_key (date t) = k) (transactions acc) = []"
    by (simp add: filter_empty_conv)
  then show ?thesis
    by (simp add: monthly_eq Report_init_def)
qed

theorem monthly_no_match_witness:
  "monthly \<lparr>balance = 200, transactions = [salary_tx, rent_tx, food_tx]\<rparr> ''12-2023'' =
     (Inr \<lparr>total_income = 0, total_expense = 0, net = 0,
           income_by_cat = Map.empty, expense_by_cat = Map.empty\<rparr>,
      \<lparr>balance = 200, transactions = [salary_tx, rent_tx, food_tx]\<rparr>)"
proof -
  have "\<forall>t\<in>set (transactions \<lparr>balance = 200, transactions = [salary_tx, rent_tx, food_tx]\<rparr>).
          month_year_key (date t) \<noteq> ''12-2023''"
    by (simp add: scenario_keys)
  then show ?thesis by (rule monthly_no_match)
qed

text \<open>
  C8. For every ledger state (any list of stored transactions, of any of the three
  classes and with amounts of any sign, and any balance) and every key string, \<open>monthly\<close>
  and the all-time summary return normally with a result: neither raises.
\<close>

theorem reports_never_fail:
  "(\<exists>r. fst (monthly acc k) = Inr r) \<and> (\<exists>s. fst (print_all_time acc) = Inr s)"
  by (simp add: monthly_eq print_all_time_eq)

text \<open>
  C3. Adding \<open>Income(1000, "Salary", 01-03-2024)\<close>, \<open>Income(200, "Gift", 15-03-2024)\<close> and
  \<open>Expense(300, "Food", 20-03-2024)\<close> to the empty ledger, in this order, succeeds and gives
  the balance \<open>900\<close>; the monthly report of that ledger for \<open>"03-2024"\<close> has total income
  \<open>1200\<close>, total expense \<open>300\<close>, net \<open>900\<close>, income by category
  \<open>{"Gift": 200, "Salary": 1000}\<close> and expense by category \<open>{"Food": 300}\<close>.
\<close>

theorem scenario_march_2024:
  "add_seq Account_init [salary_tx, gift_tx, food_tx] =
     Some \<lparr>balance = 900, transactions = [salary_tx, gift_tx, food_tx]\<rparr> \<and>
   monthly \<lparr>balance = 900, transactions = [salary_tx, gift_tx, food_tx]\<rparr> ''03-2024'' =
     (Inr \<lparr>total_income = 1200, total_expense = 300, net = 900,
           income_by_cat = [''Gift'' \<mapsto> 200, ''Salary'' \<mapsto> 1000],
           expense_by_cat = [''Food'' \<mapsto> 300]\<rparr>,
      \<lparr>balance = 900, transactions = [salary_tx, gift_tx, food_tx]\<rparr>)"
proof -
  have "monthly \<lparr>balance = 900, transactions = [salary_tx, gift_tx, food_tx]\<rparr> ''03-2024'' =
     (Inr \<lparr>total_income = 1200, total_expense = 300, net = 900,
           income_by_cat = [''Gift'' \<mapsto> 200, ''Salary'' \<mapsto> 1000],
           expense_by_cat = [''Food'' \<mapsto> 300]\<rparr>,
      \<lparr>balance = 900, transactions = [salary_tx, gift_tx, food_tx]\<rparr>)"
    by (simp add: monthly_def by_month_def scenario_keys Let_def monthly_step_def
        scenario_fields Report_init_def dict_get0_def scenario_maps)
  with scenario_adds show ?thesis by simp
qed

subsection \<open>The months partition the ledger\<close>







end
